theory Spec2Isabelle
  imports Complex_Main "HOL-Library.Word"
begin

section \<open>Numbers\<close>

text \<open>
  A JavaScript number is \<open>Num x\<close> for a real \<open>x\<close>, or \<open>NaN\<close>. On the reals \<open>+\<close>, \<open>-\<close>,
  \<open>*\<close> and \<open>/\<close> are exact: the infinities and the binary rounding of IEEE 754 are
  outside the model. An operation with a NaN operand gives NaN, and every comparison
  with NaN is false.
\<close>

datatype number = Num real | NaN

fun js_gt :: "number \<Rightarrow> number \<Rightarrow> bool" where
  "js_gt (Num x) (Num y) = (x > y)"
| "js_gt a b = False"

fun js_ge :: "number \<Rightarrow> number \<Rightarrow> bool" where
  "js_ge (Num x) (Num y) = (x \<ge> y)"
| "js_ge a b = False"

fun js_lt :: "number \<Rightarrow> number \<Rightarrow> bool" where
  "js_lt (Num x) (Num y) = (x < y)"
| "js_lt a b = False"

fun js_sub :: "number \<Rightarrow> number \<Rightarrow> number" where
  "js_sub (Num x) (Num y) = Num (x - y)"
| "js_sub a b = NaN"

fun js_mul :: "number \<Rightarrow> number \<Rightarrow> number" where
  "js_mul (Num x) (Num y) = Num (x * y)"
| "js_mul a b = NaN"

text \<open>
  The divisors of the program are the literals 100 and 255.0: a division by zero, which
  gives an infinity in JavaScript, does not occur.
\<close>

fun js_div :: "number \<Rightarrow> number \<Rightarrow> number" where
  "js_div (Num x) (Num y) = Num (x / y)"
| "js_div a b = NaN"

text \<open>
  \<open>Math.round\<close> returns the nearest integer, a half rounding up (towards plus infinity);
  \<open>Math.round(NaN)\<close> is NaN.
\<close>

definition Math_round :: "real \<Rightarrow> int" where
  "Math_round x = \<lfloor>x + 1 / 2\<rfloor>"

fun Math_round_js :: "number \<Rightarrow> number" where
  "Math_round_js (Num x) = Num (real_of_int (Math_round x))"
| "Math_round_js NaN = NaN"

text \<open>
  A value that is a number or \<open>undefined\<close> (\<open>None\<close>); in arithmetic and in comparisons
  \<open>undefined\<close> converts to NaN.
\<close>

definition ToNumber :: "number option \<Rightarrow> number" where
  "ToNumber v = (case v of None \<Rightarrow> NaN | Some n \<Rightarrow> n)"

section \<open>Interpreting the raw prediction (\<open>makePrediction\<close>, lines 109 to 118)\<close>

text \<open>
  The object \<open>makePrediction\<close> returns. The raw score is \<open>predictionData[0]\<close>, an element
  of a typed array: a number, NaN, or \<open>undefined\<close> when the array is empty.
\<close>

record prediction =
  diagnosis :: string
  confidence :: number
  rawPrediction :: "number option"

text \<open>\<open>const isMalignant = confidence > 0.5\<close>, where \<open>confidence\<close> is the raw score.\<close>

definition isMalignant :: "number option \<Rightarrow> bool" where
  "isMalignant score = js_gt (ToNumber score) (Num 0.5)"

text \<open>\<open>const finalConfidence = isMalignant ? confidence : 1 - confidence\<close>.\<close>

definition finalConfidence :: "number option \<Rightarrow> number" where
  "finalConfidence score =
     (if isMalignant score then ToNumber score else js_sub (Num 1) (ToNumber score))"

text \<open>
  Lines 114 to 118. The percentage \<open>finalConfidence * 100\<close> is rounded to two decimals
  by \<open>Math.round(finalConfidence * 100 * 100) / 100\<close>.
\<close>

definition interpretResult :: "number option \<Rightarrow> prediction" where
  "interpretResult score =
     \<lparr>diagnosis = (if isMalignant score then ''Maligno'' else ''Benigno''),
      confidence =
        js_div (Math_round_js (js_mul (js_mul (finalConfidence score) (Num 100)) (Num 100)))
          (Num 100),
      rawPrediction = score\<rparr>"

section \<open>Images and tensors\<close>

type_synonym byte = "8 word"

text \<open>The \<open>bitmap\<close> of a Jimp image: \<open>data\<close> holds the pixels as RGBA bytes.\<close>

record bitmap =
  width :: nat
  height :: nat
  data :: "byte list"

text \<open>
  A tensor: its shape and the elements of its \<open>Float32Array\<close>. An element is a number,
  or NaN (what \<open>undefined / 255.0\<close> gives when the loop reads past the end of \<open>data\<close>).
  The rounding of a quotient to 32 bits is outside the model.
\<close>

record tensor =
  shape :: "nat list"
  elems :: "number list"

text \<open>\<open>data[i] / 255.0\<close>.\<close>

definition channel :: "byte list \<Rightarrow> nat \<Rightarrow> number" where
  "channel d i = (if i < length d then Num (real (unat (d ! i)) / 255) else NaN)"

text \<open>
  The loop of lines 75 to 80: \<open>i\<close> steps by 4 over \<open>data\<close>, \<open>rgbIndex\<close> by 3 over
  \<open>rgbData\<close>. A write past the end of a typed array is dropped, as in a list update.
\<close>

function rgb_loop :: "byte list \<Rightarrow> nat \<Rightarrow> nat \<Rightarrow> number list \<Rightarrow> number list" where
  "rgb_loop d i rgbIndex rgbData =
     (if i < length d
      then rgb_loop d (i + 4) (rgbIndex + 3)
             (rgbData[rgbIndex := channel d i,
                      rgbIndex + 1 := channel d (i + 1),
                      rgbIndex + 2 := channel d (i + 2)])
      else rgbData)"
  by pat_completeness auto
termination
  by (relation "measure (\<lambda>(d, i, rgbIndex, rgbData). length d - i)") auto

declare rgb_loop.simps [simp del]

section \<open>The libraries the server calls\<close>

text \<open>
  Jimp, TensorFlow and Node's \<open>Buffer\<close> are not code of the repository: they are
  parameters of the model. A call that can throw returns \<open>Inl\<close> of the library's message.
  \<open>Jimp_resize\<close> is \<open>image.resize(w, h)\<close>, returning the bitmap of the resized image.
\<close>

record env =
  Buffer_from_base64 :: "string \<Rightarrow> string + byte list"
  Jimp_read :: "byte list \<Rightarrow> string + bitmap"
  Jimp_resize :: "nat \<Rightarrow> nat \<Rightarrow> bitmap \<Rightarrow> bitmap"

text \<open>
  A loaded graph model: \<open>model.predict(imageTensor)\<close> followed by \<open>prediction.data()\<close>,
  giving \<open>predictionData[0]\<close> (\<open>None\<close> when the output is empty), or throwing.
\<close>

type_synonym graph = "tensor \<Rightarrow> string + number option"

text \<open>The calls made to the libraries while a request is served, in order.\<close>

datatype event =
  BufferFrom string
  | JimpRead "byte list"
  | JimpResize nat nat
  | ModelPredict tensor

section \<open>The server's state and \<open>loadModel\<close>\<close>

record state =
  model :: "graph option"
  isModelLoaded :: bool

definition initial_state :: state where
  "initial_state = \<lparr>model = None, isModelLoaded = False\<rparr>"

text \<open>\<open>loaded\<close> is what \<open>tf.loadGraphModel\<close> gives: the graph, or the error it throws.\<close>

definition loadModel :: "string + graph \<Rightarrow> state \<Rightarrow> state" where
  "loadModel loaded st =
     (case loaded of
        Inr m \<Rightarrow> st\<lparr>model := Some m, isModelLoaded := True\<rparr>
      | Inl e \<Rightarrow> st\<lparr>isModelLoaded := False\<rparr>)"

section \<open>Messages\<close>

text \<open>
  The messages of the two errors the components throw. The accented letters are written
  by their code: \<open>0xE1\<close>, \<open>0xF3\<close>, \<open>0xFA\<close>.
\<close>

definition msg_preprocess :: string where
  "msg_preprocess = ''Error al procesar la imagen''"

definition msg_prediction :: string where
  "msg_prediction = ''Error al realizar la predicci'' @ [CHR 0xF3] @ ''n''"

section \<open>\<open>preprocessImage\<close> (lines 58 to 91)\<close>

text \<open>
  \<open>tf.tensor3d(rgbData, [224, 224, 3])\<close> throws unless \<open>rgbData\<close> has \<open>224 * 224 * 3\<close>
  values; \<open>expandDims(0)\<close> adds the batch axis. Whatever the body throws is caught and
  replaced by \<open>Error('Error al procesar la imagen')\<close>.
\<close>

definition preprocessImage :: "env \<Rightarrow> byte list \<Rightarrow> (string + tensor) \<times> event list" where
  "preprocessImage e imageBuffer =
     (case Jimp_read e imageBuffer of
        Inl err \<Rightarrow> (Inl msg_preprocess, [JimpRead imageBuffer])
      | Inr image0 \<Rightarrow>
          (let image = Jimp_resize e 224 224 image0;
               w = width image;
               h = height image;
               d = data image;
               rgbData = rgb_loop d 0 0 (replicate (w * h * 3) (Num 0))
           in if length rgbData = 224 * 224 * 3
              then (Inr \<lparr>shape = [1, 224, 224, 3], elems = rgbData\<rparr>,
                    [JimpRead imageBuffer, JimpResize 224 224])
              else (Inl msg_preprocess, [JimpRead imageBuffer, JimpResize 224 224])))"

section \<open>\<open>makePrediction\<close> (lines 94 to 124)\<close>

text \<open>
  The \<open>throw\<close> of line 97 is inside the \<open>try\<close>, so the \<open>catch\<close> of line 120 replaces it,
  like every other error of the body, by a new \<open>Error\<close> with the message \<open>msg_prediction\<close>.
  A \<open>model\<close> that is still \<open>undefined\<close> makes \<open>model.predict\<close> a TypeError, caught alike.
\<close>

definition makePrediction :: "state \<Rightarrow> tensor \<Rightarrow> (string + prediction) \<times> event list" where
  "makePrediction st imageTensor =
     (if \<not> isModelLoaded st then (Inl msg_prediction, [])
      else
        (case model st of
           None \<Rightarrow> (Inl msg_prediction, [])
         | Some m \<Rightarrow>
             (case m imageTensor of
                Inl err \<Rightarrow> (Inl msg_prediction, [ModelPredict imageTensor])
              | Inr score \<Rightarrow> (Inr (interpretResult score), [ModelPredict imageTensor]))))"

section \<open>The routes\<close>

text \<open>
  A response: \<open>Success diagnosis confidence\<close> is the JSON of lines 183 to 188, sent with
  status 200 (the time stamp is left out; a confidence that is NaN is written \<open>null\<close>);
  \<open>Failure status error message\<close> is \<open>res.status(status).json(...)\<close>.
\<close>

datatype response =
  Success string number
  | Failure nat string string

definition model_unavailable :: response where
  "model_unavailable =
     Failure 503 ''Modelo no disponible''
       (''El modelo a'' @ [CHR 0xFA] @ ''n se est'' @ [CHR 0xE1] @ '' cargando o fall''
        @ [CHR 0xF3] @ '' al cargar'')"

definition image_required :: response where
  "image_required =
     Failure 400 ''Imagen requerida'' ''Debe proporcionar una imagen en formato base64''"

definition invalid_format :: response where
  "invalid_format =
     Failure 400 (''Formato de imagen inv'' @ [CHR 0xE1] @ ''lido'')
       (''La imagen debe estar en formato base64 v'' @ [CHR 0xE1] @ ''lido'')"

definition file_required :: response where
  "file_required =
     Failure 400 ''Archivo requerido'' ''Debe proporcionar un archivo de imagen''"

text \<open>The \<open>catch\<close> of a route: status 500 with \<open>message: error.message\<close>.\<close>

definition internal_error :: "string \<Rightarrow> response" where
  "internal_error message = Failure 500 ''Error interno del servidor'' message"

text \<open>
  \<open>req.body.image\<close> is whatever JSON the client sent under the key \<open>image\<close>; \<open>JObject\<close>
  stands for every object and array.
\<close>

datatype jsvalue = JUndefined | JNull | JBool bool | JNumber real | JString string | JObject

text \<open>\<open>!image\<close> is true of the values that are not \<open>truthy\<close>.\<close>

fun truthy :: "jsvalue \<Rightarrow> bool" where
  "truthy JUndefined = False"
| "truthy JNull = False"
| "truthy (JBool b) = b"
| "truthy (JNumber x) = (x \<noteq> 0)"
| "truthy (JString s) = (s \<noteq> [])"
| "truthy JObject = True"

definition strip_literal :: "string \<Rightarrow> string \<Rightarrow> string option" where
  "strip_literal p s = (if take (length p) s = p then Some (drop (length p) s) else None)"

definition is_lower :: "char \<Rightarrow> bool" where
  "is_lower c = (97 \<le> (of_char c :: nat) \<and> (of_char c :: nat) \<le> 122)"

text \<open>
  \<open>s.replace(/^data:image\/[a-z]+;base64,/, '')\<close>: the prefix is removed when the whole
  pattern matches at the start of the string. The letters are followed by \<open>;\<close>, which
  is not a letter, so the longest run of letters is the only one that can match.
\<close>

definition strip_data_url :: "string \<Rightarrow> string" where
  "strip_data_url s =
     (case strip_literal ''data:image/'' s of
        None \<Rightarrow> s
      | Some r \<Rightarrow>
          if takeWhile is_lower r = [] then s
          else (case strip_literal '';base64,'' (dropWhile is_lower r) of
                  None \<Rightarrow> s
                | Some rest \<Rightarrow> rest))"

text \<open>
  \<open>image.replace(...)\<close>: only a string has the method \<open>replace\<close>; on any other value
  the call throws a TypeError.
\<close>

fun image_replace :: "jsvalue \<Rightarrow> string + string" where
  "image_replace (JString s) = Inr (strip_data_url s)"
| "image_replace v = Inl ''TypeError: image.replace is not a function''"

text \<open>The body of the \<open>try\<close> of lines 165 to 168.\<close>

definition decode_base64 :: "env \<Rightarrow> jsvalue \<Rightarrow> (string + byte list) \<times> event list" where
  "decode_base64 e img =
     (case image_replace img of
        Inl err \<Rightarrow> (Inl err, [])
      | Inr base64Data \<Rightarrow> (Buffer_from_base64 e base64Data, [BufferFrom base64Data]))"

text \<open>
  Lines 176 to 196, the same as lines 216 to 236: preprocess, predict, respond; the
  route's \<open>catch\<close> answers 500 with the message of whatever was thrown.
\<close>

definition process :: "env \<Rightarrow> state \<Rightarrow> byte list \<Rightarrow> response \<times> event list" where
  "process e st imageBuffer =
     (case preprocessImage e imageBuffer of
        (Inl err, tr) \<Rightarrow> (internal_error err, tr)
      | (Inr imageTensor, tr) \<Rightarrow>
          (case makePrediction st imageTensor of
             (Inl err, tr') \<Rightarrow> (internal_error err, tr @ tr')
           | (Inr result, tr') \<Rightarrow>
               (Success (diagnosis result) (confidence result), tr @ tr')))"

text \<open>\<open>app.post('/predict', ...)\<close>, lines 145 to 197; \<open>img\<close> is \<open>req.body.image\<close>.\<close>

definition predict_route :: "env \<Rightarrow> state \<Rightarrow> jsvalue \<Rightarrow> response \<times> event list" where
  "predict_route e st img =
     (if \<not> isModelLoaded st then (model_unavailable, [])
      else if \<not> truthy img then (image_required, [])
      else
        (case decode_base64 e img of
           (Inl err, tr) \<Rightarrow> (invalid_format, tr)
         | (Inr imageBuffer, tr) \<Rightarrow>
             (case process e st imageBuffer of (res, tr') \<Rightarrow> (res, tr @ tr'))))"

text \<open>\<open>app.post('/predict/upload', ...)\<close>, lines 200 to 237; \<open>file\<close> is \<open>req.file\<close>'s buffer.\<close>

definition predict_upload_route ::
  "env \<Rightarrow> state \<Rightarrow> byte list option \<Rightarrow> response \<times> event list" where
  "predict_upload_route e st file =
     (if \<not> isModelLoaded st then (model_unavailable, [])
      else
        (case file of
           None \<Rightarrow> (file_required, [])
         | Some imageBuffer \<Rightarrow> process e st imageBuffer))"

text \<open>The events that are a call of \<open>Jimp.read\<close>, and those that are a call of the model.\<close>

fun is_JimpRead :: "event \<Rightarrow> bool" where
  "is_JimpRead (JimpRead b) = True"
| "is_JimpRead ev = False"

fun is_ModelPredict :: "event \<Rightarrow> bool" where
  "is_ModelPredict (ModelPredict t) = True"
| "is_ModelPredict ev = False"

section \<open>Rounding to two decimals\<close>

text \<open>
  \<open>Math.round(p * 100) / 100\<close>: the rounding of line 116, as a function of the
  percentage \<open>p = finalConfidence * 100\<close>.
\<close>

definition two_decimals :: "real \<Rightarrow> real" where
  "two_decimals p = real_of_int (Math_round (p * 100)) / 100"

text \<open>
  The two tie rules the specification names, written from its words: the nearest integer,
  a half going away from zero, or to the even neighbour.
\<close>

definition round_half_away_from_zero :: "real \<Rightarrow> int" where
  "round_half_away_from_zero x = (if 0 \<le> x then \<lfloor>x + 1 / 2\<rfloor> else - \<lfloor>- x + 1 / 2\<rfloor>)"

definition round_half_to_even :: "real \<Rightarrow> int" where
  "round_half_to_even x =
     (if x - real_of_int \<lfloor>x\<rfloor> < 1 / 2 then \<lfloor>x\<rfloor>
      else if x - real_of_int \<lfloor>x\<rfloor> > 1 / 2 then \<lfloor>x\<rfloor> + 1
      else if even \<lfloor>x\<rfloor> then \<lfloor>x\<rfloor> else \<lfloor>x\<rfloor> + 1)"

section \<open>Base64\<close>



section \<open>A small environment to run the server on\<close>

text \<open>
  A lenient base64 decoder in the manner of Node's: it stops at the first \<open>=\<close>, skips
  every character outside the two alphabets and never throws.
\<close>

definition b64_value :: "char \<Rightarrow> nat option" where
  "b64_value c =
     (let n = (of_char c :: nat)
      in if 65 \<le> n \<and> n \<le> 90 then Some (n - 65)
         else if 97 \<le> n \<and> n \<le> 122 then Some (n - 71)
         else if 48 \<le> n \<and> n \<le> 57 then Some (n + 4)
         else if n = 43 \<or> n = 45 then Some 62
         else if n = 47 \<or> n = 95 then Some 63
         else None)"

fun b64_groups :: "nat list \<Rightarrow> byte list" where
  "b64_groups (a # b # c # d # rest) =
     of_nat (a * 4 + b div 16) # of_nat (b mod 16 * 16 + c div 4) # of_nat (c mod 4 * 64 + d)
     # b64_groups rest"
| "b64_groups [a, b, c] = [of_nat (a * 4 + b div 16), of_nat (b mod 16 * 16 + c div 4)]"
| "b64_groups [a, b] = [of_nat (a * 4 + b div 16)]"
| "b64_groups rest = []"

definition lenient_base64 :: "string \<Rightarrow> byte list" where
  "lenient_base64 s = b64_groups (List.map_filter b64_value (takeWhile (\<lambda>c. c \<noteq> CHR ''='') s))"

text \<open>
  A stand-in for Jimp: it reads a buffer that starts with the JPEG marker \<open>FF D8\<close> as one
  grey pixel and rejects every other buffer; resizing gives an image of that one grey.
\<close>

definition toy_read :: "byte list \<Rightarrow> string + bitmap" where
  "toy_read b =
     (if take 2 b = [0xFF, 0xD8]
      then Inr \<lparr>width = 1, height = 1, data = [200, 200, 200, 200]\<rparr>
      else Inl ''Could not find MIME for Buffer'')"

definition toy_resize :: "nat \<Rightarrow> nat \<Rightarrow> bitmap \<Rightarrow> bitmap" where
  "toy_resize w h b = \<lparr>width = w, height = h, data = replicate (w * h * 4) 200\<rparr>"

definition toy_env :: env where
  "toy_env =
     \<lparr>Buffer_from_base64 = (\<lambda>s. Inr (lenient_base64 s)),
      Jimp_read = toy_read,
      Jimp_resize = toy_resize\<rparr>"

text \<open>
  Three graphs: one answers the score 0.9 for every tensor, one answers NaN, one always
  throws.
\<close>

definition steady_graph :: graph where
  "steady_graph t = Inr (Some (Num 0.9))"

definition nan_graph :: graph where
  "nan_graph t = Inr (Some NaN)"

definition broken_graph :: graph where
  "broken_graph t = Inl ''Error when checking model: expected input shape''"

section \<open>The result interpreter\<close>

lemma Math_round_mono: "x \<le> y \<Longrightarrow> Math_round x \<le> Math_round y"
  unfolding Math_round_def by (intro floor_mono) simp

lemma Math_round_of_int: "Math_round (real_of_int k) = k"
  unfolding Math_round_def by linarith

lemma two_decimals_mono: "p \<le> q \<Longrightarrow> two_decimals p \<le> two_decimals q"
  unfolding two_decimals_def
  by (intro divide_right_mono iffD2[OF of_int_le_iff] Math_round_mono) simp_all

lemma two_decimals_50: "two_decimals 50 = 50"
  using Math_round_of_int[of 5000] by (simp add: two_decimals_def)

lemma two_decimals_100: "two_decimals 100 = 100"
  using Math_round_of_int[of 10000] by (simp add: two_decimals_def)

lemma two_decimals_half_away:
  "0 \<le> p \<Longrightarrow> two_decimals p = real_of_int (round_half_away_from_zero (p * 100)) / 100"
  by (simp add: two_decimals_def Math_round_def round_half_away_from_zero_def)

lemma two_decimals_close: "\<bar>two_decimals p - p\<bar> \<le> 1 / 200"
proof -
  have "\<bar>real_of_int \<lfloor>p * 100 + 1 / 2\<rfloor> - p * 100\<bar> \<le> 1 / 2"
    by linarith
  then show ?thesis
    by (simp add: two_decimals_def Math_round_def field_simps)
qed

text \<open>The interpreter on a score that is a number, and on a score that is not.\<close>

lemma isMalignant_Num: "isMalignant (Some (Num x)) = (x > 0.5)"
  by (simp add: isMalignant_def ToNumber_def)

lemma finalConfidence_Num:
  "finalConfidence (Some (Num x)) = Num (if x > 0.5 then x else 1 - x)"
  by (simp add: finalConfidence_def isMalignant_def ToNumber_def)

lemma finalConfidence_max: "finalConfidence (Some (Num x)) = Num (max x (1 - x))"
  by (auto simp: finalConfidence_Num max_def)

lemma percentage_Num:
  "js_mul (finalConfidence (Some (Num x))) (Num 100) = Num ((if x > 0.5 then x else 1 - x) * 100)"
  by (simp add: finalConfidence_Num)

lemma confidence_Num:
  "confidence (interpretResult (Some (Num x))) =
     Num (two_decimals ((if x > 0.5 then x else 1 - x) * 100))"
  by (simp add: interpretResult_def finalConfidence_Num two_decimals_def)

lemma diagnosis_Num:
  "diagnosis (interpretResult (Some (Num x))) = (if x > 0.5 then ''Maligno'' else ''Benigno'')"
  by (simp add: interpretResult_def isMalignant_Num)

lemma interpretResult_NaN:
  "interpretResult (Some NaN) = \<lparr>diagnosis = ''Benigno'', confidence = NaN, rawPrediction = Some NaN\<rparr>"
  by (simp add: interpretResult_def finalConfidence_def isMalignant_def ToNumber_def)

lemma interpretResult_undefined:
  "interpretResult None = \<lparr>diagnosis = ''Benigno'', confidence = NaN, rawPrediction = None\<rparr>"
  by (simp add: interpretResult_def finalConfidence_def isMalignant_def ToNumber_def)

lemma confidence_cases:
  "confidence (interpretResult v) = NaN
   \<or> (\<exists>c. confidence (interpretResult v) = Num c \<and> 50 \<le> c)"
proof (cases v)
  case None
  then show ?thesis by (simp add: interpretResult_undefined)
next
  case (Some n)
  show ?thesis
  proof (cases n)
    case NaN
    with Some show ?thesis by (simp add: interpretResult_NaN)
  next
    case (Num x)
    have "(50::real) \<le> (if x > 0.5 then x else 1 - x) * 100" by simp
    then have "two_decimals 50 \<le> two_decimals ((if x > 0.5 then x else 1 - x) * 100)"
      by (rule two_decimals_mono)
    then show ?thesis using Some Num by (simp add: confidence_Num two_decimals_50)
  qed
qed

lemma confidence_Num_ge_50: "js_ge (confidence (interpretResult (Some (Num x)))) (Num 50)"
  using confidence_cases[of "Some (Num x)"] by (auto simp: confidence_Num)

lemma confidence_not_negative: "\<not> js_lt (confidence (interpretResult v)) (Num 0)"
  using confidence_cases[of v] by auto

text \<open>
  Claim C1, as the code has it: when \<open>score > 0.5\<close> the label is Maligno (Malignant) and
  the confidence is \<open>score * 100\<close> rounded to two decimals; otherwise the label is Benigno
  (Benign) and the confidence is \<open>(1 - score) * 100\<close> rounded to two decimals. At exactly
  \<open>score = 0.5\<close> the label is Benigno with confidence 50. A score that is NaN is not
  above 0.5: the label is Benigno and the confidence is NaN, as \<open>(1 - NaN) * 100\<close> is.
\<close>

theorem interpretResult_threshold_rounded:
  "(score > 0.5 \<longrightarrow>
      diagnosis (interpretResult (Some (Num score))) = ''Maligno''
      \<and> confidence (interpretResult (Some (Num score))) = Num (two_decimals (score * 100)))
   \<and> (\<not> score > 0.5 \<longrightarrow>
      diagnosis (interpretResult (Some (Num score))) = ''Benigno''
      \<and> confidence (interpretResult (Some (Num score))) = Num (two_decimals ((1 - score) * 100)))
   \<and> diagnosis (interpretResult (Some (Num 0.5))) = ''Benigno''
   \<and> confidence (interpretResult (Some (Num 0.5))) = Num 50
   \<and> diagnosis (interpretResult (Some NaN)) = ''Benigno''
   \<and> confidence (interpretResult (Some NaN)) = NaN"
  using two_decimals_50
  by (simp add: confidence_Num diagnosis_Num interpretResult_NaN)

text \<open>The rule at the scores 0.9 and 0.1: Maligno and Benigno, both with confidence 90.\<close>

theorem interpretResult_threshold_rounded_witness:
  "(0.9 :: real) > 0.5 \<and> diagnosis (interpretResult (Some (Num 0.9))) = ''Maligno''
   \<and> confidence (interpretResult (Some (Num 0.9))) = Num 90
   \<and> \<not> (0.1 :: real) > 0.5 \<and> diagnosis (interpretResult (Some (Num 0.1))) = ''Benigno''
   \<and> confidence (interpretResult (Some (Num 0.1))) = Num 90"
  using interpretResult_threshold_rounded[of "0.9"] interpretResult_threshold_rounded[of "0.1"]
  by (simp add: two_decimals_def Math_round_def)

text \<open>
  Without the rounding, claim C1 fails: at the score \<open>193 / 256 = 0.75390625\<close> the label
  is Maligno and \<open>score * 100\<close> is 75.390625, but the confidence returned is 75.39.
\<close>

theorem interpretResult_unrounded_counterexample:
  "(193 / 256 :: real) > 0.5 \<and> diagnosis (interpretResult (Some (Num (193 / 256)))) = ''Maligno''
   \<and> confidence (interpretResult (Some (Num (193 / 256)))) = Num 75.39
   \<and> (193 / 256 :: real) * 100 = 75.390625
   \<and> confidence (interpretResult (Some (Num (193 / 256)))) \<noteq> Num (193 / 256 * 100)"
  by (simp add: confidence_Num diagnosis_Num two_decimals_def Math_round_def)

text \<open>
  Claim C7, as the code has it: for two scores \<open>x\<close> and \<open>y\<close> that are numbers with
  \<open>x + y = 1\<close> (so that \<open>y\<close> is \<open>1 - x\<close> exactly) and \<open>x\<close> other than 0.5, the results
  have opposite labels (one is Maligno, the other Benigno) and the same confidence.
  When both are scores, the subtraction of line 112 gives back the other score.
\<close>

theorem interpretResult_mirror:
  assumes "x \<noteq> 0.5" and "x + y = 1"
  shows "diagnosis (interpretResult (Some (Num x))) \<noteq> diagnosis (interpretResult (Some (Num y)))
    \<and> {diagnosis (interpretResult (Some (Num x))), diagnosis (interpretResult (Some (Num y)))}
        = {''Maligno'', ''Benigno''}
    \<and> confidence (interpretResult (Some (Num x))) = confidence (interpretResult (Some (Num y)))
    \<and> js_sub (Num 1) (Num x) = Num y"
proof -
  from assms(2) have y: "y = 1 - x" by simp
  show ?thesis using assms(1) unfolding y
    by (auto simp: confidence_Num diagnosis_Num)
qed

theorem interpretResult_mirror_witness:
  "(0.75::real) \<noteq> 0.5 \<and> (0.75::real) + 0.25 = 1
    \<and> diagnosis (interpretResult (Some (Num 0.75))) = ''Maligno''
    \<and> diagnosis (interpretResult (Some (Num 0.25))) = ''Benigno''
    \<and> confidence (interpretResult (Some (Num 0.75))) = Num 75
    \<and> confidence (interpretResult (Some (Num 0.25))) = Num 75"
  using interpretResult_mirror[of "0.75" "0.25"]
  by (simp add: confidence_Num diagnosis_Num two_decimals_def Math_round_def)

text \<open>
  Claim C7 fails at a score that is not a number: NaN is not 0.5, \<open>1 - NaN\<close> is NaN, and
  both results are Benigno.
\<close>

theorem interpretResult_mirror_counterexample:
  "NaN \<noteq> Num 0.5
   \<and> js_sub (Num 1) NaN = NaN
   \<and> diagnosis (interpretResult (Some NaN)) = ''Benigno''
   \<and> diagnosis (interpretResult (Some (js_sub (Num 1) NaN))) = ''Benigno''"
  by (simp add: interpretResult_NaN)

text \<open>
  Claim C8: for every score that is a number, the confidence returned is the percentage
  \<open>finalConfidence * 100\<close> rounded to two decimals, a half-way value rounding away from
  zero: it is a whole number of hundredths, at most half a hundredth from the percentage.
  For a score that is NaN or missing the percentage is NaN, and so is the confidence.
\<close>

theorem confidence_rounded_half_away:
  "js_mul (finalConfidence (Some (Num score))) (Num 100)
     = Num ((if score > 0.5 then score else 1 - score) * 100)
   \<and> confidence (interpretResult (Some (Num score)))
     = Num (real_of_int (round_half_away_from_zero
              ((if score > 0.5 then score else 1 - score) * 100 * 100)) / 100)
   \<and> \<bar>real_of_int (round_half_away_from_zero
              ((if score > 0.5 then score else 1 - score) * 100 * 100)) / 100
        - (if score > 0.5 then score else 1 - score) * 100\<bar> \<le> 1 / 200
   \<and> js_mul (finalConfidence (Some NaN)) (Num 100) = NaN
   \<and> confidence (interpretResult (Some NaN)) = NaN
   \<and> js_mul (finalConfidence None) (Num 100) = NaN
   \<and> confidence (interpretResult None) = NaN"
proof -
  define p where "p = (if score > 0.5 then score else 1 - score) * 100"
  have "0 \<le> p" by (simp add: p_def)
  then have r: "two_decimals p = real_of_int (round_half_away_from_zero (p * 100)) / 100"
    by (rule two_decimals_half_away)
  have "\<bar>two_decimals p - p\<bar> \<le> 1 / 200" by (rule two_decimals_close)
  then have c: "\<bar>real_of_int (round_half_away_from_zero (p * 100)) / 100 - p\<bar> \<le> 1 / 200"
    by (simp only: r)
  have 1: "js_mul (finalConfidence (Some (Num score))) (Num 100) = Num p"
    unfolding p_def by (rule percentage_Num)
  have 2: "confidence (interpretResult (Some (Num score)))
      = Num (real_of_int (round_half_away_from_zero (p * 100)) / 100)"
    using confidence_Num[of score] by (simp only: p_def r[unfolded p_def])
  have n: "js_mul (finalConfidence (Some NaN)) (Num 100) = NaN"
    "js_mul (finalConfidence None) (Num 100) = NaN"
    by (simp_all add: finalConfidence_def isMalignant_def ToNumber_def)
  have m: "confidence (interpretResult (Some NaN)) = NaN"
    "confidence (interpretResult None) = NaN"
    by (simp_all add: interpretResult_NaN interpretResult_undefined)
  show ?thesis
    using 1 2 c n m unfolding p_def by (intro conjI)
qed

text \<open>
  At the score \<open>17 / 32\<close> the percentage times 100 is the half-way value 5312.5: the code
  returns 53.13, as rounding half away from zero does.
\<close>

theorem confidence_rounded_half_away_witness:
  "js_mul (js_mul (finalConfidence (Some (Num (17 / 32)))) (Num 100)) (Num 100) = Num 5312.5
   \<and> confidence (interpretResult (Some (Num (17 / 32)))) = Num 53.13
   \<and> real_of_int (round_half_away_from_zero 5312.5) / 100 = 53.13"
  using confidence_rounded_half_away[of "17 / 32"]
  by (simp add: round_half_away_from_zero_def)

text \<open>Rounding the half to the even neighbour would give 53.12 there.\<close>

lemma half_to_even_differs:
  "real_of_int (round_half_to_even 5312.5) / 100 = 53.12"
  by (simp add: round_half_to_even_def)

text \<open>
  Claim C9, as the code has it: for every score that is a number, in or out of \<open>[0, 1]\<close>,
  the percentage before rounding is \<open>max score (1 - score) * 100\<close> and the confidence
  returned is at least 50. No score at all gives a negative confidence; a score that is
  NaN or missing gives the confidence NaN.
\<close>

theorem confidence_at_least_50:
  "js_mul (finalConfidence (Some (Num score))) (Num 100) = Num (max score (1 - score) * 100)
   \<and> js_ge (confidence (interpretResult (Some (Num score)))) (Num 50)
   \<and> \<not> js_lt (confidence (interpretResult v)) (Num 0)
   \<and> confidence (interpretResult (Some NaN)) = NaN
   \<and> confidence (interpretResult None) = NaN"
  using confidence_Num_ge_50[of score] confidence_not_negative[of v]
  by (simp add: finalConfidence_max interpretResult_NaN interpretResult_undefined)

text \<open>The bound is met at the score 0.5; the score -1 gives 200.\<close>

theorem confidence_at_least_50_witness:
  "confidence (interpretResult (Some (Num 0.5))) = Num 50
   \<and> confidence (interpretResult (Some (Num (- 1)))) = Num 200
   \<and> js_ge (Num 50) (Num 50) \<and> js_ge (Num 200) (Num 50)"
  using confidence_at_least_50[of "0.5"] confidence_at_least_50[of "- 1"]
  by (simp add: confidence_Num two_decimals_def Math_round_def)

text \<open>
  Claim C9 fails at a score that is not a number: a graph that answers NaN makes
  \<open>makePrediction\<close> return Benigno with the confidence NaN, which is not at least 50.
\<close>

theorem confidence_nan_counterexample:
  "makePrediction (loadModel (Inr nan_graph) initial_state) \<lparr>shape = [1, 224, 224, 3], elems = []\<rparr>
     = (Inr \<lparr>diagnosis = ''Benigno'', confidence = NaN, rawPrediction = Some NaN\<rparr>,
        [ModelPredict \<lparr>shape = [1, 224, 224, 3], elems = []\<rparr>])
   \<and> confidence (interpretResult (Some NaN)) = NaN
   \<and> \<not> js_ge (confidence (interpretResult (Some NaN))) (Num 50)"
  by (simp add: makePrediction_def loadModel_def initial_state_def nan_graph_def
      interpretResult_NaN)

text \<open>
  Claim C6, as the code has it: a score outside \<open>[0, 1]\<close> is not rejected. Once the model
  has answered it, \<open>makePrediction\<close> returns the result of the same threshold and the
  same arithmetic, with no clamping; the confidence is then at least 100 and can exceed
  it (200 at the scores 2 and -1), and it is never negative.
\<close>

theorem out_of_range_score_interpreted:
  assumes "score < 0 \<or> 1 < score"
    and "isModelLoaded st" and "model st = Some m" and "m t = Inr (Some (Num score))"
  shows "makePrediction st t = (Inr (interpretResult (Some (Num score))), [ModelPredict t])
     \<and> interpretResult (Some (Num score)) =
         \<lparr>diagnosis = (if score > 0.5 then ''Maligno'' else ''Benigno''),
          confidence = Num (two_decimals ((if score > 0.5 then score else 1 - score) * 100)),
          rawPrediction = Some (Num score)\<rparr>
     \<and> js_ge (confidence (interpretResult (Some (Num score)))) (Num 100)
     \<and> confidence (interpretResult (Some (Num 2))) = Num 200
     \<and> confidence (interpretResult (Some (Num (- 1)))) = Num 200"
proof -
  have "(100::real) \<le> (if score > 0.5 then score else 1 - score) * 100"
    using assms(1) by auto
  then have "two_decimals 100 \<le> two_decimals ((if score > 0.5 then score else 1 - score) * 100)"
    by (rule two_decimals_mono)
  then have "js_ge (confidence (interpretResult (Some (Num score)))) (Num 100)"
    by (simp add: two_decimals_100 confidence_Num)
  moreover have "makePrediction st t = (Inr (interpretResult (Some (Num score))), [ModelPredict t])"
    using assms(2,3,4) by (simp add: makePrediction_def)
  moreover have "confidence (interpretResult (Some (Num 2))) = Num 200"
    "confidence (interpretResult (Some (Num (- 1)))) = Num 200"
    by (simp_all add: confidence_Num two_decimals_def Math_round_def)
  moreover have "interpretResult (Some (Num score)) =
         \<lparr>diagnosis = (if score > 0.5 then ''Maligno'' else ''Benigno''),
          confidence = Num (two_decimals ((if score > 0.5 then score else 1 - score) * 100)),
          rawPrediction = Some (Num score)\<rparr>"
    using confidence_Num[of score] diagnosis_Num[of score]
    by (simp add: interpretResult_def)
  ultimately show ?thesis by blast
qed

text \<open>A graph that answers the score 2: the request succeeds as Maligno with confidence 200.\<close>

theorem out_of_range_score_interpreted_witness:
  "((2::real) < 0 \<or> (1::real) < 2)
   \<and> isModelLoaded (loadModel (Inr (\<lambda>t. Inr (Some (Num 2)))) initial_state)
   \<and> makePrediction (loadModel (Inr (\<lambda>t. Inr (Some (Num 2)))) initial_state)
        \<lparr>shape = [1, 224, 224, 3], elems = []\<rparr>
      = (Inr \<lparr>diagnosis = ''Maligno'', confidence = Num 200, rawPrediction = Some (Num 2)\<rparr>,
         [ModelPredict \<lparr>shape = [1, 224, 224, 3], elems = []\<rparr>])"
proof -
  let ?st = "loadModel (Inr (\<lambda>t. Inr (Some (Num 2)))) initial_state"
  have l: "isModelLoaded ?st" and m: "model ?st = Some (\<lambda>t. Inr (Some (Num 2)))"
    by (simp_all add: loadModel_def initial_state_def)
  have o: "(2::real) < 0 \<or> (1::real) < 2" by simp
  show ?thesis
    using out_of_range_score_interpreted[OF o l m refl, of "\<lparr>shape = [1, 224, 224, 3], elems = []\<rparr>"] l
    by (simp add: two_decimals_def Math_round_def)
qed

text \<open>
  Claim C6 says the confidence may go negative. It cannot: no score, outside \<open>[0, 1]\<close>
  or not, gives a negative confidence.
\<close>

theorem confidence_negative_counterexample:
  "\<not> (\<exists>v. (js_lt (ToNumber v) (Num 0) \<or> js_gt (ToNumber v) (Num 1))
          \<and> js_lt (confidence (interpretResult v)) (Num 0))"
  using confidence_not_negative by blast

section \<open>The loop of \<open>preprocessImage\<close>\<close>

lemma rgb_loop_length: "length (rgb_loop d i k acc) = length acc"
proof (induction d i k acc rule: rgb_loop.induct)
  case (1 d i rgbIndex rgbData)
  show ?case
  proof (cases "i < length d")
    case True
    with "1" show ?thesis by (subst rgb_loop.simps) simp
  next
    case False
    then show ?thesis by (subst rgb_loop.simps) simp
  qed
qed

lemma rgb_loop_nth:
  "length d = 4 * n \<Longrightarrow> length acc = 3 * n \<Longrightarrow> i = 4 * j \<Longrightarrow> k = 3 * j \<Longrightarrow> j \<le> n \<Longrightarrow>
   (\<And>q. q < 3 * j \<Longrightarrow> acc ! q = channel d (4 * (q div 3) + q mod 3)) \<Longrightarrow>
   q < 3 * n \<Longrightarrow> rgb_loop d i k acc ! q = channel d (4 * (q div 3) + q mod 3)"
proof (induction d i k acc arbitrary: j rule: rgb_loop.induct)
  case (1 d i rgbIndex rgbData)
  show ?case
  proof (cases "i < length d")
    case False
    with "1.prems" have "j = n" by simp
    with "1.prems" False show ?thesis by (subst rgb_loop.simps) simp
  next
    case True
    with "1.prems" have jn: "j < n" by simp
    let ?acc = "rgbData[rgbIndex := channel d i,
                      rgbIndex + 1 := channel d (i + 1),
                      rgbIndex + 2 := channel d (i + 2)]"
    have inv: "?acc ! r = channel d (4 * (r div 3) + r mod 3)" if r: "r < 3 * Suc j" for r
    proof (cases "r < 3 * j")
      case True
      then have "?acc ! r = rgbData ! r" using "1.prems"(4) by simp
      then show ?thesis using "1.prems"(6)[OF True] by simp
    next
      case False
      with r have "r = 3 * j \<or> r = 3 * j + 1 \<or> r = 3 * j + 2" by arith
      then consider "r = 3 * j" | "r = 3 * j + 1" | "r = 3 * j + 2" by blast
      then show ?thesis
      proof cases
        case 1
        then have "r div 3 = j" "r mod 3 = 0" by presburger+
        then show ?thesis using 1 "1.prems"(2,3,4) jn by simp
      next
        case 2
        then have "r div 3 = j" "r mod 3 = 1" by presburger+
        then show ?thesis using 2 "1.prems"(2,3,4) jn by simp
      next
        case 3
        then have "r div 3 = j" "r mod 3 = 2" by presburger+
        then show ?thesis using 3 "1.prems"(2,3,4) jn by simp
      qed
    qed
    have "rgb_loop d (i + 4) (rgbIndex + 3) ?acc ! q = channel d (4 * (q div 3) + q mod 3)"
      using "1.prems"(1,2,3,4,7) jn
      by (intro "1.IH"[OF True, of "Suc j"] inv) simp_all
    then show ?thesis using True by (subst rgb_loop.simps) simp
  qed
qed

lemma byte_ratio_bounds: "0 \<le> real (unat (b :: byte)) / 255 \<and> real (unat b) / 255 \<le> 1"
proof -
  have "unat b < 256" using unsigned_less[of b] by simp
  then have "unat b \<le> 255" by simp
  then have "real (unat b) \<le> real 255" by (simp only: of_nat_le_iff)
  moreover have "0 \<le> real (unat b)" by (rule of_nat_0_le_iff)
  ultimately show ?thesis by simp
qed

lemma channel_in_range:
  assumes "i < length d"
  shows "\<exists>x. channel d i = Num x \<and> 0 \<le> x \<and> x \<le> 1"
proof (intro exI conjI)
  show "channel d i = Num (real (unat (d ! i)) / 255)"
    using assms by (simp add: channel_def)
  show "0 \<le> real (unat (d ! i)) / 255" "real (unat (d ! i)) / 255 \<le> 1"
    using byte_ratio_bounds[of "d ! i"] by blast+
qed

section \<open>The image normalizer\<close>

text \<open>
  Claim C2: whenever Jimp decodes the bytes (an image of any width and height) and its
  \<open>resize(224, 224)\<close> gives a bitmap of width 224 and height 224 with four bytes a pixel,
  \<open>preprocessImage\<close> returns a tensor of shape \<open>[1, 224, 224, 3]\<close> with \<open>224 * 224 * 3\<close>
  elements; the element of pixel \<open>p\<close> and channel \<open>c < 3\<close> is byte \<open>4 * p + c\<close> of the
  bitmap divided by 255 (the alpha byte \<open>4 * p + 3\<close> is read nowhere), and every element
  lies between 0 and 1.
\<close>

theorem preprocessImage_tensor:
  assumes "Jimp_read e imageBuffer = Inr image0"
    and "width (Jimp_resize e 224 224 image0) = 224"
    and "height (Jimp_resize e 224 224 image0) = 224"
    and "length (data (Jimp_resize e 224 224 image0)) = 224 * 224 * 4"
  shows "\<exists>t tr. preprocessImage e imageBuffer = (Inr t, tr)
      \<and> shape t = [1, 224, 224, 3]
      \<and> length (elems t) = 224 * 224 * 3
      \<and> (\<forall>p<224 * 224. \<forall>c<3. elems t ! (3 * p + c) =
            Num (real (unat (data (Jimp_resize e 224 224 image0) ! (4 * p + c))) / 255))
      \<and> (\<forall>x\<in>set (elems t). \<exists>v. x = Num v \<and> 0 \<le> v \<and> v \<le> 1)"
proof -
  let ?d = "data (Jimp_resize e 224 224 image0)"
  let ?n = "224 * 224 :: nat"
  let ?rgb = "rgb_loop ?d 0 0 (replicate (?n * 3) (Num 0))"
  have len_d: "length ?d = 4 * ?n" using assms(4) by simp
  have len: "length ?rgb = ?n * 3" by (simp only: rgb_loop_length length_replicate)
  have nth: "?rgb ! q = channel ?d (4 * (q div 3) + q mod 3)" if "q < 3 * ?n" for q
    using len_d that by (intro rgb_loop_nth[where n = ?n and j = 0]) simp_all
  have pre: "preprocessImage e imageBuffer =
      (Inr \<lparr>shape = [1, 224, 224, 3], elems = ?rgb\<rparr>, [JimpRead imageBuffer, JimpResize 224 224])"
    using assms(1,2,3) len by (simp add: preprocessImage_def Let_def)
  have el: "?rgb ! (3 * p + c) = Num (real (unat (?d ! (4 * p + c))) / 255)"
    if "p < ?n" "c < 3" for p c
  proof -
    have "(3 * p + c) div 3 = p" "(3 * p + c) mod 3 = c" using that(2) by simp_all
    moreover have "3 * p + c < 3 * ?n" using that by simp
    moreover have "4 * p + c < length ?d" using that len_d by simp
    ultimately show ?thesis using nth[of "3 * p + c"] by (simp add: channel_def)
  qed
  have rng: "\<exists>v. x = Num v \<and> 0 \<le> v \<and> v \<le> 1" if "x \<in> set ?rgb" for x
  proof -
    from that obtain q where q: "q < length ?rgb" "x = ?rgb ! q"
      by (auto simp: in_set_conv_nth)
    then have q3: "q < 3 * ?n" using len by simp
    then have "q div 3 < ?n" by simp
    moreover have "q mod 3 < 3" by simp
    ultimately have "4 * (q div 3) + q mod 3 < length ?d" using len_d by linarith
    then show ?thesis using channel_in_range nth[OF q3] q(2) by simp
  qed
  let ?t = "\<lparr>shape = [1, 224, 224, 3], elems = ?rgb\<rparr>"
  have "preprocessImage e imageBuffer = (Inr ?t, [JimpRead imageBuffer, JimpResize 224 224])
      \<and> shape ?t = [1, 224, 224, 3]
      \<and> length (elems ?t) = 224 * 224 * 3
      \<and> (\<forall>p<224 * 224. \<forall>c<3. elems ?t ! (3 * p + c) = Num (real (unat (?d ! (4 * p + c))) / 255))
      \<and> (\<forall>x\<in>set (elems ?t). \<exists>v. x = Num v \<and> 0 \<le> v \<and> v \<le> 1)"
  proof (intro conjI)
    show "preprocessImage e imageBuffer = (Inr ?t, [JimpRead imageBuffer, JimpResize 224 224])"
      by (rule pre)
    show "shape ?t = [1, 224, 224, 3]" by simp
    show "length (elems ?t) = 224 * 224 * 3" using len by simp
    show "\<forall>p<224 * 224. \<forall>c<3. elems ?t ! (3 * p + c) = Num (real (unat (?d ! (4 * p + c))) / 255)"
      using el by simp
    show "\<forall>x\<in>set (elems ?t). \<exists>v. x = Num v \<and> 0 \<le> v \<and> v \<le> 1"
      using rng by simp
  qed
  then show ?thesis by blast
qed

text \<open>The stand-in decoder on a buffer that starts with \<open>FF D8\<close>: a grey tensor.\<close>

theorem preprocessImage_tensor_witness:
  "\<exists>t tr. preprocessImage toy_env [0xFF, 0xD8, 0xFF] = (Inr t, tr)
      \<and> shape t = [1, 224, 224, 3]
      \<and> length (elems t) = 150528
      \<and> elems t ! 0 = Num (200 / 255) \<and> elems t ! 1 = Num (200 / 255) \<and> elems t ! 2 = Num (200 / 255)"
proof -
  let ?img = "\<lparr>width = 1, height = 1, data = [200, 200, 200, 200 :: byte]\<rparr>"
  have r: "Jimp_read toy_env [0xFF, 0xD8, 0xFF] = Inr ?img"
    by (simp add: toy_env_def toy_read_def)
  have rs: "Jimp_resize toy_env 224 224 ?img =
      \<lparr>width = 224, height = 224, data = replicate (224 * 224 * 4) 200\<rparr>"
    by (simp add: toy_env_def toy_resize_def)
  from preprocessImage_tensor[OF r, unfolded rs] obtain t tr where t:
    "preprocessImage toy_env [0xFF, 0xD8, 0xFF] = (Inr t, tr)"
    "shape t = [1, 224, 224, 3]" "length (elems t) = 224 * 224 * 3"
    "\<forall>p<224 * 224. \<forall>c<3. elems t ! (3 * p + c) =
       Num (real (unat (replicate (224 * 224 * 4) (200 :: byte) ! (4 * p + c))) / 255)"
    by auto
  have e: "elems t ! c = Num (200 / 255)" if "c < 3" for c
  proof -
    from t(4) have "0 < (224 * 224 :: nat) \<longrightarrow> (\<forall>c<3. elems t ! (3 * 0 + c) =
       Num (real (unat (replicate (224 * 224 * 4) (200 :: byte) ! (4 * 0 + c))) / 255))"
      by (rule spec)
    then show ?thesis using that by simp
  qed
  have "elems t ! 0 = Num (200 / 255)" using e[of 0] by simp
  moreover have "elems t ! 1 = Num (200 / 255)" using e[of 1] by simp
  moreover have "elems t ! 2 = Num (200 / 255)" using e[of 2] by simp
  ultimately show ?thesis using t(1,2,3) by simp
qed

section \<open>The pipeline\<close>

lemma preprocessImage_read_fails:
  "Jimp_read e b = Inl err \<Longrightarrow> preprocessImage e b = (Inl msg_preprocess, [JimpRead b])"
  by (simp add: preprocessImage_def)

lemma preprocessImage_error: "fst (preprocessImage e b) = Inl err \<Longrightarrow> err = msg_preprocess"
  by (auto simp: preprocessImage_def Let_def split: sum.splits if_splits)

lemma preprocessImage_reads_once:
  "length (filter is_JimpRead (snd (preprocessImage e b))) = 1"
  by (simp add: preprocessImage_def Let_def split: sum.splits)

lemma preprocessImage_no_predict:
  "filter is_ModelPredict (snd (preprocessImage e b)) = []"
  by (simp add: preprocessImage_def Let_def split: sum.splits)

lemma makePrediction_error: "fst (makePrediction st t) = Inl err \<Longrightarrow> err = msg_prediction"
  by (auto simp: makePrediction_def split: option.splits sum.splits if_splits)

lemma makePrediction_no_read: "filter is_JimpRead (snd (makePrediction st t)) = []"
  by (simp add: makePrediction_def split: option.splits sum.splits)

lemma makePrediction_predicts_once:
  "length (filter is_ModelPredict (snd (makePrediction st t))) \<le> 1"
  by (simp add: makePrediction_def split: option.splits sum.splits)

lemma process_preprocess_fails:
  "preprocessImage e b = (Inl err, tr) \<Longrightarrow> process e st b = (internal_error err, tr)"
  by (simp add: process_def)

lemma process_predict_fails:
  "preprocessImage e b = (Inr t, tr) \<Longrightarrow> makePrediction st t = (Inl err, tr') \<Longrightarrow>
   process e st b = (internal_error err, tr @ tr')"
  by (simp add: process_def)


lemma process_trace:
  "snd (process e st b) =
     snd (preprocessImage e b) @
     (case fst (preprocessImage e b) of Inl err \<Rightarrow> [] | Inr t \<Rightarrow> snd (makePrediction st t))"
  by (simp add: process_def split: prod.splits sum.splits)

lemma process_reads_once: "length (filter is_JimpRead (snd (process e st b))) = 1"
  by (simp add: process_trace preprocessImage_reads_once makePrediction_no_read split: sum.splits)

lemma process_predicts_once: "length (filter is_ModelPredict (snd (process e st b))) \<le> 1"
proof (cases "fst (preprocessImage e b)")
  case (Inl err)
  then show ?thesis by (simp add: process_trace preprocessImage_no_predict)
next
  case (Inr t)
  then show ?thesis
    using makePrediction_predicts_once[of st t]
    by (simp add: process_trace preprocessImage_no_predict)
qed


lemma messages_differ: "msg_preprocess \<noteq> msg_prediction"
  by (simp add: msg_preprocess_def msg_prediction_def)

lemma toy_tensor:
  "\<exists>t. preprocessImage toy_env [0xFF, 0xD8, 0xFF] =
      (Inr t, [JimpRead [0xFF, 0xD8, 0xFF], JimpResize 224 224])"
proof -
  have "length (rgb_loop (replicate (224 * 224 * 4) 200) 0 0 (replicate (224 * 224 * 3) (Num 0)))
      = 224 * 224 * 3"
    by (simp only: rgb_loop_length length_replicate)
  then show ?thesis
    by (simp add: preprocessImage_def toy_env_def toy_read_def toy_resize_def Let_def)
qed

text \<open>A whole request: the stand-in image, the graph that answers 0.9.\<close>

lemma toy_process_succeeds:
  "fst (process toy_env (loadModel (Inr steady_graph) initial_state) [0xFF, 0xD8, 0xFF])
     = Success ''Maligno'' (Num 90)"
proof -
  let ?st = "loadModel (Inr steady_graph) initial_state"
  from toy_tensor obtain t where t: "preprocessImage toy_env [0xFF, 0xD8, 0xFF] =
      (Inr t, [JimpRead [0xFF, 0xD8, 0xFF], JimpResize 224 224])" by blast
  have "makePrediction ?st t = (Inr (interpretResult (Some (Num 0.9))), [ModelPredict t])"
    by (simp add: makePrediction_def loadModel_def initial_state_def steady_graph_def)
  with t have "fst (process toy_env ?st [0xFF, 0xD8, 0xFF]) =
      Success (diagnosis (interpretResult (Some (Num 0.9))))
        (confidence (interpretResult (Some (Num 0.9))))"
    by (simp add: process_def)
  then show ?thesis
    by (simp add: confidence_Num diagnosis_Num two_decimals_def Math_round_def)
qed

lemma toy_request_succeeds:
  "fst (predict_upload_route toy_env (loadModel (Inr steady_graph) initial_state)
         (Some [0xFF, 0xD8, 0xFF])) = Success ''Maligno'' (Num 90)"
  using toy_process_succeeds
  by (simp add: predict_upload_route_def loadModel_def initial_state_def)

text \<open>The same request to a server whose graph answers NaN: status 200, confidence NaN.\<close>

lemma nan_request_answered:
  "fst (predict_upload_route toy_env (loadModel (Inr nan_graph) initial_state)
         (Some [0xFF, 0xD8, 0xFF])) = Success ''Benigno'' NaN"
proof -
  let ?st = "loadModel (Inr nan_graph) initial_state"
  from toy_tensor obtain t where t: "preprocessImage toy_env [0xFF, 0xD8, 0xFF] =
      (Inr t, [JimpRead [0xFF, 0xD8, 0xFF], JimpResize 224 224])" by blast
  have "makePrediction ?st t = (Inr (interpretResult (Some NaN)), [ModelPredict t])"
    by (simp add: makePrediction_def loadModel_def initial_state_def nan_graph_def)
  with t have "fst (process toy_env ?st [0xFF, 0xD8, 0xFF]) =
      Success (diagnosis (interpretResult (Some NaN))) (confidence (interpretResult (Some NaN)))"
    by (simp add: process_def)
  then show ?thesis
    by (simp add: predict_upload_route_def loadModel_def initial_state_def interpretResult_NaN)
qed

text \<open>
  Claim C3: when \<open>Jimp.read\<close> cannot decode the bytes, the pipeline answers with the error
  of \<open>preprocessImage\<close> (\<open>Error al procesar la imagen\<close>, the decode failure), and so do
  both routes of a server whose model is loaded; \<open>model.predict\<close> is not called: the only
  calls are the base64 decoding of the \<open>/predict\<close> route and \<open>Jimp.read\<close>.
\<close>

theorem decode_failure_stops_before_predict:
  assumes "isModelLoaded st" and "Jimp_read e imageBuffer = Inl err"
  shows "process e st imageBuffer = (internal_error msg_preprocess, [JimpRead imageBuffer])
    \<and> predict_upload_route e st (Some imageBuffer) =
        (internal_error msg_preprocess, [JimpRead imageBuffer])
    \<and> (\<forall>s. s \<noteq> [] \<and> Buffer_from_base64 e (strip_data_url s) = Inr imageBuffer \<longrightarrow>
          predict_route e st (JString s) =
            (internal_error msg_preprocess, [BufferFrom (strip_data_url s), JimpRead imageBuffer]))
    \<and> filter is_ModelPredict (snd (process e st imageBuffer)) = []"
proof -
  have p: "process e st imageBuffer = (internal_error msg_preprocess, [JimpRead imageBuffer])"
    using assms(2) by (simp add: process_def preprocessImage_def)
  then show ?thesis
    using assms(1) by (simp add: predict_upload_route_def predict_route_def decode_base64_def)
qed

text \<open>The two bytes \<open>47 49\<close>, uploaded or sent as the base64 string \<open>R0k=\<close>.\<close>

theorem decode_failure_stops_before_predict_witness:
  "isModelLoaded (loadModel (Inr steady_graph) initial_state)
   \<and> Jimp_read toy_env [0x47, 0x49] = Inl ''Could not find MIME for Buffer''
   \<and> predict_upload_route toy_env (loadModel (Inr steady_graph) initial_state) (Some [0x47, 0x49])
     = (Failure 500 ''Error interno del servidor'' ''Error al procesar la imagen'',
        [JimpRead [0x47, 0x49]])
   \<and> predict_route toy_env (loadModel (Inr steady_graph) initial_state) (JString ''R0k='')
     = (Failure 500 ''Error interno del servidor'' ''Error al procesar la imagen'',
        [BufferFrom ''R0k='', JimpRead [0x47, 0x49]])"
proof -
  have l: "isModelLoaded (loadModel (Inr steady_graph) initial_state)"
    by (simp add: loadModel_def initial_state_def)
  have r: "Jimp_read toy_env [0x47, 0x49] = Inl ''Could not find MIME for Buffer''"
    by (simp add: toy_env_def toy_read_def)
  have s: "strip_data_url ''R0k='' = ''R0k=''"
    by code_simp
  have b: "Buffer_from_base64 toy_env ''R0k='' = Inr [0x47, 0x49]"
    by code_simp
  show ?thesis
    using decode_failure_stops_before_predict[OF l r] l r s b
    by (simp add: internal_error_def msg_preprocess_def)
qed

text \<open>
  Claim C4: while the model is not loaded (before \<open>loadModel\<close>, or after a load that
  failed), both routes answer at once with 503 \<open>Modelo no disponible\<close> and call nothing:
  no base64 decoding, no \<open>Jimp.read\<close>, no \<open>model.predict\<close>. \<open>makePrediction\<close> itself
  calls nothing either in that state.
\<close>

theorem not_loaded_fails_fast:
  assumes "\<not> isModelLoaded st"
  shows "predict_route e st img = (model_unavailable, [])
    \<and> predict_upload_route e st file = (model_unavailable, [])
    \<and> snd (makePrediction st t) = []"
  using assms by (simp add: predict_route_def predict_upload_route_def makePrediction_def)

text \<open>The initial state, and the state after a load that failed.\<close>

theorem not_loaded_fails_fast_witness:
  "\<not> isModelLoaded initial_state
   \<and> predict_route toy_env initial_state (JString ''/9j/'') = (model_unavailable, [])
   \<and> \<not> isModelLoaded (loadModel (Inl ''ENOENT: no such file'') initial_state)
   \<and> predict_upload_route toy_env (loadModel (Inl ''ENOENT: no such file'') initial_state)
        (Some [0xFF, 0xD8, 0xFF]) = (model_unavailable, [])"
proof -
  have a: "\<not> isModelLoaded initial_state" by (simp add: initial_state_def)
  have b: "\<not> isModelLoaded (loadModel (Inl ''ENOENT: no such file'') initial_state)"
    by (simp add: loadModel_def)
  show ?thesis
    using not_loaded_fails_fast[OF a] not_loaded_fails_fast[OF b] a b by simp
qed

text \<open>
  Claim C5: the error a component throws reaches the response unchanged. When
  \<open>preprocessImage\<close> fails, its error (the decode failure) is the message of the 500
  response and \<open>model.predict\<close> is not called; when \<open>makePrediction\<close> fails, its error
  (the inference failure) is the message of the 500 response. The two errors differ.
  Nothing is retried: \<open>Jimp.read\<close> is called once and \<open>model.predict\<close> at most once.
\<close>

theorem component_errors_propagate:
  "(fst (preprocessImage e b) = Inl err \<longrightarrow>
       err = msg_preprocess
       \<and> process e st b = (internal_error err, snd (preprocessImage e b))
       \<and> filter is_ModelPredict (snd (process e st b)) = [])
   \<and> (fst (preprocessImage e b) = Inr t \<and> fst (makePrediction st t) = Inl err \<longrightarrow>
       err = msg_prediction
       \<and> process e st b =
           (internal_error err, snd (preprocessImage e b) @ snd (makePrediction st t)))
   \<and> msg_preprocess \<noteq> msg_prediction
   \<and> length (filter is_JimpRead (snd (process e st b))) = 1
   \<and> length (filter is_ModelPredict (snd (process e st b))) \<le> 1"
proof (intro conjI impI)
  assume a: "fst (preprocessImage e b) = Inl err"
  then show "err = msg_preprocess" by (rule preprocessImage_error)
  from a show "process e st b = (internal_error err, snd (preprocessImage e b))"
    by (intro process_preprocess_fails) (simp add: prod_eq_iff)
  from a show "filter is_ModelPredict (snd (process e st b)) = []"
    by (simp add: process_trace preprocessImage_no_predict)
next
  assume "fst (preprocessImage e b) = Inr t \<and> fst (makePrediction st t) = Inl err"
  then have a: "fst (preprocessImage e b) = Inr t" and m: "fst (makePrediction st t) = Inl err"
    by blast+
  from m show "err = msg_prediction" by (rule makePrediction_error)
  have "preprocessImage e b = (Inr t, snd (preprocessImage e b))"
    using a by (simp add: prod_eq_iff)
  moreover have "makePrediction st t = (Inl err, snd (makePrediction st t))"
    using m by (simp add: prod_eq_iff)
  ultimately show "process e st b =
      (internal_error err, snd (preprocessImage e b) @ snd (makePrediction st t))"
    by (rule process_predict_fails)
next
  show "msg_preprocess \<noteq> msg_prediction" by (rule messages_differ)
  show "length (filter is_JimpRead (snd (process e st b))) = 1" by (rule process_reads_once)
  show "length (filter is_ModelPredict (snd (process e st b))) \<le> 1"
    by (rule process_predicts_once)
qed

text \<open>A buffer that is no image, and an image given to a graph that throws.\<close>

theorem component_errors_propagate_witness:
  "fst (preprocessImage toy_env [0x47, 0x49]) = Inl ''Error al procesar la imagen''
   \<and> process toy_env (loadModel (Inr steady_graph) initial_state) [0x47, 0x49] =
       (Failure 500 ''Error interno del servidor'' ''Error al procesar la imagen'',
        [JimpRead [0x47, 0x49]])
   \<and> (\<exists>t. fst (preprocessImage toy_env [0xFF, 0xD8, 0xFF]) = Inr t
        \<and> fst (makePrediction (loadModel (Inr broken_graph) initial_state) t) = Inl msg_prediction
        \<and> process toy_env (loadModel (Inr broken_graph) initial_state) [0xFF, 0xD8, 0xFF] =
            (Failure 500 ''Error interno del servidor'' msg_prediction,
             [JimpRead [0xFF, 0xD8, 0xFF], JimpResize 224 224, ModelPredict t]))"
proof -
  let ?st = "loadModel (Inr steady_graph) initial_state"
  let ?bad = "loadModel (Inr broken_graph) initial_state"
  have a: "fst (preprocessImage toy_env [0x47, 0x49]) = Inl ''Error al procesar la imagen''"
    by (simp add: preprocessImage_def toy_env_def toy_read_def msg_preprocess_def)
  have a': "snd (preprocessImage toy_env [0x47, 0x49]) = [JimpRead [0x47, 0x49]]"
    by (simp add: preprocessImage_def toy_env_def toy_read_def)
  from toy_tensor obtain t where t: "preprocessImage toy_env [0xFF, 0xD8, 0xFF] =
      (Inr t, [JimpRead [0xFF, 0xD8, 0xFF], JimpResize 224 224])" by blast
  have m: "makePrediction ?bad t = (Inl msg_prediction, [ModelPredict t])"
    by (simp add: makePrediction_def loadModel_def initial_state_def broken_graph_def)
  have 1: "process toy_env ?st [0x47, 0x49] =
       (Failure 500 ''Error interno del servidor'' ''Error al procesar la imagen'',
        [JimpRead [0x47, 0x49]])"
    using component_errors_propagate[of toy_env "[0x47, 0x49]" "''Error al procesar la imagen''" ?st] a a'
    by (simp add: internal_error_def)
  have 2: "process toy_env ?bad [0xFF, 0xD8, 0xFF] =
            (Failure 500 ''Error interno del servidor'' msg_prediction,
             [JimpRead [0xFF, 0xD8, 0xFF], JimpResize 224 224, ModelPredict t])"
    using component_errors_propagate[of toy_env "[0xFF, 0xD8, 0xFF]" msg_prediction ?bad t] t m
    by (simp add: internal_error_def)
  show ?thesis using a 1 2 t m by (intro conjI exI[of _ t]) simp_all
qed

section \<open>The base64 entry point\<close>

text \<open>
  The \<open>catch\<close> of line 169 is reached by a value that is not a string, and would be
  reached if the decoding threw.
\<close>

lemma catch_reached_by_a_number:
  "isModelLoaded st \<Longrightarrow> predict_route e st (JNumber 5) = (invalid_format, [])"
  by (simp add: predict_route_def decode_base64_def)

lemma catch_reached_when_decoding_throws:
  "isModelLoaded st \<Longrightarrow> s \<noteq> [] \<Longrightarrow> Buffer_from_base64 e (strip_data_url s) = Inl err \<Longrightarrow>
   fst (predict_route e st (JString s)) = invalid_format"
  by (simp add: predict_route_def decode_base64_def)





end
